theory Spec2Isabelle
  imports Main
begin

section \<open>The extcap adapter library: data model\<close>

text \<open>
  The library (Go package \<^verbatim>\<open>extcap\<close>, files \<^verbatim>\<open>application.go\<close> and
  \<^verbatim>\<open>errors.go\<close>) dispatches one of several query/action modes of Wireshark's
  extcap protocol from parsed command-line flags and delegates the work to callbacks the
  caller stores in the \<^verbatim>\<open>App\<close> structure.

  The embedding is shallow.  Everything the dispatcher does besides returning a value is
  made explicit: a run yields the list of observable events (callback invocations with
  their arguments, lines printed) in program order, together with the way it ended
  (returned, panicked, or left the process through \<^verbatim>\<open>os.Exit\<close>).
\<close>

subsection \<open>Errors (errors.go)\<close>

text \<open>
  \<^verbatim>\<open>ErrNoInterfaceSpecified\<close> and \<^verbatim>\<open>ErrNoPipeProvided\<close> are the package's two
  sentinel errors.  \<open>Errorf_w prefix err\<close> is the value of
  \<^verbatim>\<open>fmt.Errorf(prefix + "%w", err)\<close>: an error that wraps \<open>err\<close>.  \<open>OtherError\<close>
  stands for every error made outside the package (by a callback or the operating
  system), identified by its message.
\<close>

datatype error =
    ErrNoInterfaceSpecified
  | ErrNoPipeProvided
  | Errorf_w string error
  | OtherError string

fun Error :: "error \<Rightarrow> string" where
  "Error ErrNoInterfaceSpecified = ''no interface specified''"
| "Error ErrNoPipeProvided = ''no FIFO pipe provided''"
| "Error (Errorf_w prefix err) = prefix @ Error err"
| "Error (OtherError msg) = msg"

fun Unwrap :: "error \<Rightarrow> error option" where
  "Unwrap (Errorf_w prefix err) = Some err"
| "Unwrap _ = None"

subsection \<open>Domain records\<close>

text \<open>
  \<^verbatim>\<open>VersionInfo\<close> is used by \<^verbatim>\<open>Run\<close> through its fields \<^verbatim>\<open>Info\<close> and
  \<^verbatim>\<open>Help\<close>.
\<close>

record VersionInfo =
  Info :: string
  Help :: string

text \<open>
  Modelled from the spec: the declarations of \<^verbatim>\<open>CaptureInterface\<close> and \<^verbatim>\<open>DLT\<close>
  are not part of the two source files.  The spec gives a capture interface a value (its
  machine identifier) and a display name, and a DLT a number, a protocol name and a
  display name.
\<close>

record CaptureInterface =
  iface_value :: string
  iface_display :: string

record DLT =
  dlt_number :: int
  dlt_name :: string
  dlt_display :: string

text \<open>
  Modelled from the spec: the \<^verbatim>\<open>ConfigOption\<close> interface and its implementations are
  declared outside the two source files.  The source uses the methods \<^verbatim>\<open>call()\<close>,
  \<^verbatim>\<open>display()\<close>, \<^verbatim>\<open>isRequired()\<close> and \<^verbatim>\<open>setNumber(i)\<close>, the field
  \<^verbatim>\<open>defaultValue\<close> of each of the three implementations
  \<^verbatim>\<open>*ConfigStringOpt\<close>, \<^verbatim>\<open>*ConfigBoolOpt\<close>, \<^verbatim>\<open>*ConfigIntegerOpt\<close>, and a type
  switch with a \<^verbatim>\<open>default\<close> branch for every other dynamic type.  An option is
  therefore a record of the shared fields (the ordinal assigned at render time, the flag
  name, the description, the required flag) and a variant carrying the typed default;
  \<open>UnsupportedOpt T\<close> is an option of any other dynamic type, \<open>T\<close> being what
  \<^verbatim>\<open>%T\<close> prints for it.  Options are non-nil objects.
\<close>

datatype ConfigOptVariant =
    ConfigStringOpt string
  | ConfigBoolOpt bool
  | ConfigIntegerOpt int
  | UnsupportedOpt string

record ConfigOption =
  number :: int
  call :: string
  display :: string
  isRequired :: bool
  variant :: ConfigOptVariant

text \<open>
  Modelled from the spec: \<^verbatim>\<open>setNumber\<close> is declared outside the two source files; it
  stores the ordinal position of the option, used for display numbering.
\<close>

definition setNumber :: "ConfigOption \<Rightarrow> int \<Rightarrow> ConfigOption" where
  "setNumber opt i = opt\<lparr>number := i\<rparr>"

text \<open>
  Modelled from the spec: the \<^verbatim>\<open>String()\<close> rendering of a \<^verbatim>\<open>CaptureInterface\<close>
  is declared outside the two source files; the spec gives the protocol line
  \<^verbatim>\<open>interface {value=<id>}{display=<name>}\<close>.
\<close>

definition String_CaptureInterface :: "CaptureInterface \<Rightarrow> string" where
  "String_CaptureInterface i =
     ''interface {value='' @ iface_value i @ ''}{display='' @ iface_display i @ ''}''"

subsection \<open>The flag library (urfave/cli) at its interface\<close>

text \<open>
  A flag declaration as \<^verbatim>\<open>Run\<close> builds it: \<^verbatim>\<open>Name\<close>, \<^verbatim>\<open>Usage\<close>,
  \<^verbatim>\<open>Required\<close>, \<^verbatim>\<open>Value\<close> (the default).
\<close>

datatype Flag =
    StringFlag string string bool string
  | BoolFlag string string bool bool
  | IntFlag string string bool int

text \<open>The dynamically typed value \<^verbatim>\<open>ctx.Value(name)\<close> returns.\<close>

datatype flag_value = VString string | VBool bool | VInt int | VNil

text \<open>
  The parsed command line \<^verbatim>\<open>*cli.Context\<close>, by the five operations the dispatcher
  performs on it.  \<open>ShowAppHelp\<close> is the result of \<^verbatim>\<open>cli.ShowAppHelp(ctx)\<close>.
\<close>

record Context =
  IsSet :: "string \<Rightarrow> bool"
  String :: "string \<Rightarrow> string"
  FlagNames :: "string list"
  Value :: "string \<Rightarrow> flag_value"
  ShowAppHelp :: "error option"

text \<open>An open pipe handle (\<^verbatim>\<open>io.WriteCloser\<close>), identified by a label.\<close>

datatype WriteCloser = Pipe string

subsection \<open>The application structure\<close>

text \<open>
  The callbacks are function-valued fields; an unset field is \<^verbatim>\<open>nil\<close>, here \<open>None\<close>.
  A Go function returning \<^verbatim>\<open>(T, error)\<close> is a function into \<open>error + T\<close>: the
  dispatcher tests the error first and never looks at the value beside a non-nil error.
  A function returning only \<^verbatim>\<open>error\<close> is a function into \<open>error option\<close>.
\<close>

record App =
  Usage :: string
  HelpPage :: string
  Version :: VersionInfo
  UsageExamples :: "string list"
  GetInterfaces :: "(unit \<Rightarrow> error + CaptureInterface list) option"
  GetDLT :: "(string \<Rightarrow> error + DLT) option"
  GetConfigOptions :: "(string \<Rightarrow> error + ConfigOption list) option"
  GetAllConfigOptions :: "(unit \<Rightarrow> ConfigOption list) option"
  StartCapture ::
    "(string \<Rightarrow> WriteCloser \<Rightarrow> string \<Rightarrow> (string \<rightharpoonup> flag_value) \<Rightarrow> error option) option"
  OpenPipe :: "(string \<Rightarrow> error + WriteCloser) option"

subsection \<open>Observable behaviour\<close>

text \<open>What \<^verbatim>\<open>fmt.Println\<close> is handed: the value whose rendering becomes one line.\<close>

datatype printable =
    P_Version VersionInfo
  | P_Interface CaptureInterface
  | P_DLT DLT
  | P_Option ConfigOption

datatype event =
    Call_GetInterfaces
  | Call_GetDLT string
  | Call_GetConfigOptions string
  | Call_GetAllConfigOptions
  | Call_openPipeFunc string
  | Call_StartCapture string WriteCloser string "string \<rightharpoonup> flag_value"
  | Println printable
  | Call_ShowAppHelp
  | Stderr_Println error

text \<open>
  A call through a nil function value is a run-time panic (nil pointer dereference);
  \<open>PanicMsg\<close> is an explicit \<^verbatim>\<open>panic(msg)\<close>.
\<close>

datatype panic = NilFuncCall | PanicMsg string

datatype 'a outcome = Return 'a | Panic panic | Exit int

text \<open>The operating system, by the one call the package makes: \<^verbatim>\<open>os.OpenFile\<close>
  with \<^verbatim>\<open>O_WRONLY\<close> and \<^verbatim>\<open>ModeNamedPipe\<close>.\<close>

record os =
  os_OpenFile :: "string \<Rightarrow> error + WriteCloser"

section \<open>The mode dispatcher (application.go)\<close>

definition openPipe :: "os \<Rightarrow> string \<Rightarrow> error + WriteCloser" where
  "openPipe env name =
     (case os_OpenFile env name of
        Inl err \<Rightarrow> Inl (Errorf_w ''unable to open pipe: '' err)
      | Inr pipe \<Rightarrow> Inr pipe)"

text \<open>
  The loop of capture mode over \<^verbatim>\<open>ctx.FlagNames()\<close> filling the map \<^verbatim>\<open>opts\<close>.
\<close>

fun collectOpts ::
  "Context \<Rightarrow> string list \<Rightarrow> (string \<rightharpoonup> flag_value) \<Rightarrow> (string \<rightharpoonup> flag_value)" where
  "collectOpts ctx [] opts = opts"
| "collectOpts ctx (name # names) opts =
     (if name = ''extcap-interface'' \<or> name = ''fifo'' \<or> name = ''extcap-capture-filter''
      then collectOpts ctx names opts
      else collectOpts ctx names (opts(name \<mapsto> Value ctx name)))"

text \<open>
  The loop of list-config mode: \<^verbatim>\<open>opts[i].setNumber(i); fmt.Println(opts[i])\<close> for
  \<open>i\<close> from the given start.
\<close>

fun printOpts :: "nat \<Rightarrow> ConfigOption list \<Rightarrow> event list" where
  "printOpts i [] = []"
| "printOpts i (opt # opts) =
     Println (P_Option (setNumber opt (int i))) # printOpts (Suc i) opts"

definition mainAction :: "os \<Rightarrow> App \<Rightarrow> Context \<Rightarrow> event list \<times> error option outcome" where
  "mainAction env extapp ctx =
    (if IsSet ctx ''extcap-interfaces'' then
       (case GetInterfaces extapp of
          None \<Rightarrow> ([], Panic NilFuncCall)
        | Some getInterfaces \<Rightarrow>
            (case getInterfaces () of
               Inl err \<Rightarrow> ([Call_GetInterfaces], Return (Some err))
             | Inr ifaces \<Rightarrow>
                 (Call_GetInterfaces # Println (P_Version (Version extapp))
                    # map (\<lambda>i. Println (P_Interface i)) ifaces,
                  Return None)))
     else if IsSet ctx ''extcap-dlts'' then
       (if \<not> IsSet ctx ''extcap-interface'' then ([], Return (Some ErrNoInterfaceSpecified))
        else
          let iface = String ctx ''extcap-interface'' in
          (case GetDLT extapp of
             None \<Rightarrow> ([], Panic NilFuncCall)
           | Some getDLT \<Rightarrow>
               (case getDLT iface of
                  Inl err \<Rightarrow> ([Call_GetDLT iface], Return (Some err))
                | Inr dlt \<Rightarrow> ([Call_GetDLT iface, Println (P_DLT dlt)], Return None))))
     else if IsSet ctx ''extcap-config'' then
       (case GetConfigOptions extapp of
          None \<Rightarrow> ([], Return None)
        | Some getConfigOptions \<Rightarrow>
            if \<not> IsSet ctx ''extcap-interface'' then ([], Return (Some ErrNoInterfaceSpecified))
            else
              let iface = String ctx ''extcap-interface'' in
              (case getConfigOptions iface of
                 Inl err \<Rightarrow> ([Call_GetConfigOptions iface], Return (Some err))
               | Inr opts \<Rightarrow> (Call_GetConfigOptions iface # printOpts 0 opts, Return None)))
     else if IsSet ctx ''capture'' then
       (if \<not> IsSet ctx ''extcap-interface'' then ([], Return (Some ErrNoInterfaceSpecified))
        else if \<not> IsSet ctx ''fifo'' then ([], Return (Some ErrNoPipeProvided))
        else
          let iface = String ctx ''extcap-interface'';
              fifo = String ctx ''fifo'';
              filter = String ctx ''extcap-capture-filter'';
              opts = collectOpts ctx (FlagNames ctx) Map.empty;
              openPipeFunc = (case OpenPipe extapp of None \<Rightarrow> openPipe env | Some f \<Rightarrow> f)
          in
          (case openPipeFunc fifo of
             Inl err \<Rightarrow> ([Call_openPipeFunc fifo], Return (Some err))
           | Inr pipe \<Rightarrow>
               (case StartCapture extapp of
                  None \<Rightarrow> ([Call_openPipeFunc fifo], Panic NilFuncCall)
                | Some startCapture \<Rightarrow>
                    ([Call_openPipeFunc fifo, Call_StartCapture iface pipe filter opts],
                     Return (startCapture iface pipe filter opts)))))
     else if IsSet ctx ''extcap-capture-filter'' then ([], Exit 0)
     else ([Call_ShowAppHelp], Return (ShowAppHelp ctx)))"

section \<open>The application facade (application.go, \<^verbatim>\<open>Run\<close>)\<close>

text \<open>
  The flag library is external.  The facade uses it in two places: \<^verbatim>\<open>cli.NewApp()\<close>
  makes the library's application object, and \<^verbatim>\<open>app.Run(arguments)\<close> parses the
  arguments against the flag schema and then either returns an error of its own, or returns
  without running the action (for instance after printing help), or runs the action on the
  parsed context and returns what the action returned.
\<close>

record cli_App =
  cli_Name :: string
  cli_Usage :: string
  cli_Description :: string
  cli_UsageText :: string
  cli_CustomAppHelpTemplate :: string
  cli_Flags :: "Flag list"

datatype cli_dispatch = Cli_Error error | Cli_NoAction | Cli_Action Context

record cli =
  NewApp :: cli_App
  cli_Run :: "cli_App \<Rightarrow> string list \<Rightarrow> cli_dispatch"

definition helpTemplate :: string where
  "helpTemplate =
     ''NAME:\<newline>'' @
     ''   {{.Name}}{{if .Usage}} - {{.Usage}}{{end}}\<newline>'' @
     ''\<newline>'' @
     ''USAGE:\<newline>'' @
     ''   {{if .UsageText}}{{.UsageText}}{{else}}{{.HelpName}} {{if .VisibleFlags}}[global options]{{end}}{{if .Commands}} command [command options]{{end}} {{if .ArgsUsage}}{{.ArgsUsage}}{{else}}[arguments...]{{end}}{{end}}{{if .Version}}{{if not .HideVersion}}\<newline>'' @
     ''\<newline>'' @
     ''VERSION:\<newline>'' @
     ''   {{.Version}}{{end}}{{end}}{{if .Description}}\<newline>'' @
     ''\<newline>'' @
     ''DESCRIPTION:\<newline>'' @
     ''   {{.Description}}{{end}}{{if len .Authors}}\<newline>'' @
     ''\<newline>'' @
     ''AUTHOR{{with $length := len .Authors}}{{if ne 1 $length}}S{{end}}{{end}}:\<newline>'' @
     ''   {{range $index, $author := .Authors}}{{if $index}}\<newline>'' @
     ''   {{end}}{{$author}}{{end}}{{end}}{{if .VisibleCommands}}\<newline>'' @
     ''\<newline>'' @
     ''OPTIONS:\<newline>'' @
     ''   {{range $index, $option := .VisibleFlags}}{{if $index}}\<newline>'' @
     ''   {{end}}{{$option}}{{end}}{{end}}{{if .Copyright}}\<newline>'' @
     ''\<newline>'' @
     ''COPYRIGHT:\<newline>'' @
     ''   {{.Copyright}}{{end}}\<newline>''"

text \<open>The loop writing one usage example per line, with no line break after the last.\<close>

fun usageText :: "string \<Rightarrow> string list \<Rightarrow> string" where
  "usageText name [] = []"
| "usageText name [str] = name @ '' '' @ str"
| "usageText name (str # strs) = name @ '' '' @ str @ ''\<newline>'' @ usageText name strs"

definition staticFlags :: "Flag list" where
  "staticFlags =
     [StringFlag ''extcap-version'' ''specify the Wireshark major and minor version'' False [],
      BoolFlag ''extcap-interfaces'' ''list the extcap interfaces'' False False,
      BoolFlag ''extcap-dlts'' ''list the DLTs'' False False,
      StringFlag ''extcap-interface'' ''specify the extcap interface `<iface>`'' False [],
      BoolFlag ''extcap-config'' ''list the additional configuration for an interface'' False False,
      BoolFlag ''capture'' ''run the capture'' False False,
      StringFlag ''extcap-capture-filter'' ''the capture filter `<filter>`'' False [],
      StringFlag ''fifo'' ''dump data to file or `<fifo>`'' False []]"

text \<open>
  The loop over the options \<^verbatim>\<open>GetAllConfigOptions\<close> returned: one flag appended per
  option, by the option's dynamic type; any other type panics.
\<close>

fun appendFlags :: "Flag list \<Rightarrow> ConfigOption list \<Rightarrow> panic + Flag list" where
  "appendFlags flags [] = Inr flags"
| "appendFlags flags (opt # opts) =
     (case variant opt of
        ConfigStringOpt defaultValue \<Rightarrow>
          appendFlags (flags @ [StringFlag (call opt) (display opt) (isRequired opt) defaultValue]) opts
      | ConfigBoolOpt defaultValue \<Rightarrow>
          appendFlags (flags @ [BoolFlag (call opt) (display opt) (isRequired opt) defaultValue]) opts
      | ConfigIntegerOpt defaultValue \<Rightarrow>
          appendFlags (flags @ [IntFlag (call opt) (display opt) (isRequired opt) defaultValue]) opts
      | UnsupportedOpt T \<Rightarrow> Inl (PanicMsg (''Unknown config option type: '' @ T)))"

definition Run :: "cli \<Rightarrow> os \<Rightarrow> App \<Rightarrow> string list \<Rightarrow> event list \<times> unit outcome" where
  "Run lib env extapp0 arguments =
    (let app = NewApp lib;
         extapp = (if Info (Version extapp0) = []
                   then extapp0\<lparr>Version := (Version extapp0)\<lparr>Info := ''0.0.1''\<rparr>\<rparr>
                   else extapp0);
         extapp = (if Help (Version extapp) = []
                   then extapp\<lparr>Version := (Version extapp)\<lparr>Help := ''https://github.com/lion7/extcap''\<rparr>\<rparr>
                   else extapp);
         app = app\<lparr>cli_Usage := Usage extapp, cli_Description := HelpPage extapp\<rparr>;
         extapp = extapp\<lparr>UsageExamples := ''--extcap-interfaces'' # UsageExamples extapp\<rparr>;
         app = app\<lparr>cli_UsageText := usageText (cli_Name app) (UsageExamples extapp),
                   cli_CustomAppHelpTemplate := helpTemplate,
                   cli_Flags := staticFlags\<rparr>;
         (evs0, schema) =
           (case GetAllConfigOptions extapp of
              None \<Rightarrow> ([], Inr (cli_Flags app))
            | Some getAllConfigOptions \<Rightarrow>
                ([Call_GetAllConfigOptions], appendFlags (cli_Flags app) (getAllConfigOptions ())))
     in
     (case schema of
        Inl p \<Rightarrow> (evs0, Panic p)
      | Inr flags \<Rightarrow>
          (case cli_Run lib (app\<lparr>cli_Flags := flags\<rparr>) arguments of
             Cli_Error err \<Rightarrow> (evs0 @ [Stderr_Println err], Exit (- 1))
           | Cli_NoAction \<Rightarrow> (evs0, Return ())
           | Cli_Action ctx \<Rightarrow>
               (case mainAction env extapp ctx of
                  (evs, Return None) \<Rightarrow> (evs0 @ evs, Return ())
                | (evs, Return (Some err)) \<Rightarrow> (evs0 @ evs @ [Stderr_Println err], Exit (- 1))
                | (evs, Panic p) \<Rightarrow> (evs0 @ evs, Panic p)
                | (evs, Exit code) \<Rightarrow> (evs0 @ evs, Exit code)))))"

section \<open>The protocol modes, as the specification names them\<close>

text \<open>
  The specification describes the dispatcher as a state machine over six modes, selected by
  flag presence and checked in a fixed priority order.  \<open>mode_flags\<close> is that order, and
  \<open>selected_mode\<close> follows the specification's words: the first mode flag found set selects
  the mode, and help is what remains when none is set.  It takes only the presence test,
  never a flag's value.  The dispatcher itself (\<open>mainAction\<close> above) is the chain of
  conditionals of the source; the theorems below relate the two.
\<close>

datatype mode = ListInterfaces | ListDLTs | ListConfig | Capture | CaptureFilterValidation | Help

definition mode_flags :: "(string \<times> mode) list" where
  "mode_flags =
     [(''extcap-interfaces'', ListInterfaces),
      (''extcap-dlts'', ListDLTs),
      (''extcap-config'', ListConfig),
      (''capture'', Capture),
      (''extcap-capture-filter'', CaptureFilterValidation)]"

definition selected_mode :: "(string \<Rightarrow> bool) \<Rightarrow> mode" where
  "selected_mode isSet =
     (case find (\<lambda>(name, m). isSet name) mode_flags of
        Some (name, m) \<Rightarrow> m
      | None \<Rightarrow> Help)"



text \<open>
  The interface lines on standard output, in order: the rendering of every
  \<^verbatim>\<open>CaptureInterface\<close> handed to \<^verbatim>\<open>fmt.Println\<close>.
\<close>

fun interface_lines :: "event list \<Rightarrow> string list" where
  "interface_lines [] = []"
| "interface_lines (Println (P_Interface i) # evs) = String_CaptureInterface i # interface_lines evs"
| "interface_lines (e # evs) = interface_lines evs"

section \<open>Concrete inputs\<close>

text \<open>
  A parsed command line on which the listed flags are set, each with its value, and no
  other flag is.
\<close>

definition example_context :: "(string \<times> flag_value) list \<Rightarrow> Context" where
  "example_context given =
     \<lparr>IsSet = (\<lambda>name. name \<in> set (map fst given)),
      String = (\<lambda>name. case map_of given name of Some (VString s) \<Rightarrow> s | _ \<Rightarrow> []),
      FlagNames = map fst given,
      Value = (\<lambda>name. case map_of given name of Some v \<Rightarrow> v | None \<Rightarrow> VNil),
      ShowAppHelp = None\<rparr>"

text \<open>An operating system on which \<^verbatim>\<open>/tmp/p\<close> is the only path that opens.\<close>

definition example_os :: os where
  "example_os =
     \<lparr>os_OpenFile = (\<lambda>name. if name = ''/tmp/p'' then Inr (Pipe name)
                             else Inl (OtherError ''no such file or directory''))\<rparr>"

definition eth0 :: CaptureInterface where
  "eth0 = \<lparr>iface_value = ''eth0'', iface_display = ''Ethernet''\<rparr>"

definition en10mb :: DLT where
  "en10mb = \<lparr>dlt_number = 1, dlt_name = ''EN10MB'', dlt_display = ''Ethernet''\<rparr>"

definition opt_verbose :: ConfigOption where
  "opt_verbose = \<lparr>number = 0, call = ''verbose'', display = ''Verbose output'',
                   isRequired = False, variant = ConfigBoolOpt False\<rparr>"

definition opt_host :: ConfigOption where
  "opt_host = \<lparr>number = 0, call = ''remote-host'', display = ''Remote host'',
                isRequired = True, variant = ConfigStringOpt []\<rparr>"

definition opt_selector :: ConfigOption where
  "opt_selector = \<lparr>number = 0, call = ''mode'', display = ''Mode'',
                    isRequired = False, variant = UnsupportedOpt ''*extcap.SelectorConfig''\<rparr>"

text \<open>An application with every callback set but the pipe opener, which is the default.\<close>

definition example_app :: App where
  "example_app =
     \<lparr>Usage = ''example dump'', HelpPage = [], Version = \<lparr>Info = ''1.0'', Help = []\<rparr>,
      UsageExamples = [],
      GetInterfaces = Some (\<lambda>u. Inr [eth0]),
      GetDLT = Some (\<lambda>iface. if iface = ''eth0'' then Inr en10mb
                               else Inl (OtherError ''unknown interface'')),
      GetConfigOptions = Some (\<lambda>iface. Inr [opt_host, opt_verbose]),
      GetAllConfigOptions = Some (\<lambda>u. [opt_host, opt_verbose]),
      StartCapture = Some (\<lambda>iface pipe flt opts. None),
      OpenPipe = None\<rparr>"

definition failing_opener :: "string \<Rightarrow> error + WriteCloser" where
  "failing_opener name = Inl (OtherError ''permission denied'')"

definition failing_enumeration :: "unit \<Rightarrow> error + CaptureInterface list" where
  "failing_enumeration u = Inl (OtherError ''enumeration failed'')"

definition selector_options :: "unit \<Rightarrow> ConfigOption list" where
  "selector_options u = [opt_host, opt_selector, opt_verbose]"

text \<open>
  A flag library that runs the action on the context in which every argument is a flag set
  to true.
\<close>

definition example_cli :: cli where
  "example_cli =
     \<lparr>NewApp = \<lparr>cli_Name = ''exampledump'', cli_Usage = [], cli_Description = [],
                 cli_UsageText = [], cli_CustomAppHelpTemplate = [], cli_Flags = []\<rparr>,
      cli_Run = (\<lambda>app arguments. Cli_Action (example_context (map (\<lambda>a. (a, VBool True)) arguments)))\<rparr>"

definition ctx_interfaces :: Context where
  "ctx_interfaces = example_context [(''extcap-interfaces'', VBool True)]"

definition ctx_interfaces_false :: Context where
  "ctx_interfaces_false = example_context [(''extcap-interfaces'', VBool False)]"

definition ctx_interfaces_and_dlts :: Context where
  "ctx_interfaces_and_dlts =
     example_context [(''extcap-dlts'', VBool True), (''extcap-interfaces'', VBool True)]"

definition ctx_dlts_no_interface :: Context where
  "ctx_dlts_no_interface = example_context [(''extcap-dlts'', VBool True)]"

definition ctx_dlts :: Context where
  "ctx_dlts =
     example_context [(''extcap-dlts'', VBool True), (''extcap-interface'', VString ''eth0'')]"

definition ctx_config_no_interface :: Context where
  "ctx_config_no_interface = example_context [(''extcap-config'', VBool True)]"

definition ctx_config :: Context where
  "ctx_config =
     example_context [(''extcap-config'', VBool True), (''extcap-interface'', VString ''eth0'')]"

definition ctx_capture_no_interface :: Context where
  "ctx_capture_no_interface =
     example_context [(''capture'', VBool True), (''fifo'', VString ''/tmp/p'')]"

definition ctx_capture_no_fifo :: Context where
  "ctx_capture_no_fifo =
     example_context [(''capture'', VBool True), (''extcap-interface'', VString ''eth0'')]"

definition ctx_capture :: Context where
  "ctx_capture =
     example_context
       [(''capture'', VBool True), (''extcap-capture-filter'', VString ''tcp''),
        (''extcap-interface'', VString ''eth0''), (''fifo'', VString ''/tmp/p''),
        (''verbose'', VBool True)]"

definition ctx_capture_bad_fifo :: Context where
  "ctx_capture_bad_fifo =
     example_context
       [(''capture'', VBool True), (''extcap-interface'', VString ''eth0''),
        (''fifo'', VString ''/no/such/fifo'')]"

definition ctx_filter_only :: Context where
  "ctx_filter_only = example_context [(''extcap-capture-filter'', VString ''tcp'')]"

definition ctx_none :: Context where
  "ctx_none = example_context []"

definition app_without_options :: App where
  "app_without_options = example_app\<lparr>GetConfigOptions := None\<rparr>"

definition app_custom_opener :: App where
  "app_custom_opener = example_app\<lparr>OpenPipe := Some failing_opener\<rparr>"

definition app_failing_enumeration :: App where
  "app_failing_enumeration = example_app\<lparr>GetInterfaces := Some failing_enumeration\<rparr>"

definition app_selector :: App where
  "app_selector = example_app\<lparr>GetAllConfigOptions := Some selector_options\<rparr>"

definition app_unset :: App where
  "app_unset = example_app\<lparr>GetInterfaces := None, GetDLT := None, StartCapture := None\<rparr>"

definition app_no_global_options :: App where
  "app_no_global_options = example_app\<lparr>GetAllConfigOptions := None\<rparr>"

section \<open>Auxiliary facts\<close>

lemmas example_defs =
  example_context_def example_os_def example_app_def eth0_def en10mb_def opt_verbose_def
  opt_host_def opt_selector_def failing_opener_def failing_enumeration_def
  selector_options_def example_cli_def
  ctx_interfaces_def ctx_interfaces_false_def ctx_interfaces_and_dlts_def ctx_dlts_no_interface_def ctx_dlts_def
  ctx_config_no_interface_def ctx_config_def ctx_capture_no_interface_def
  ctx_capture_no_fifo_def ctx_capture_def ctx_capture_bad_fifo_def ctx_filter_only_def
  ctx_none_def app_without_options_def app_custom_opener_def app_failing_enumeration_def
  app_selector_def app_unset_def app_no_global_options_def

subsection \<open>Mode selection\<close>

lemma selected_mode_chain:
  "selected_mode isSet =
     (if isSet ''extcap-interfaces'' then ListInterfaces
      else if isSet ''extcap-dlts'' then ListDLTs
      else if isSet ''extcap-config'' then ListConfig
      else if isSet ''capture'' then Capture
      else if isSet ''extcap-capture-filter'' then CaptureFilterValidation
      else Help)"
  by (simp add: selected_mode_def mode_flags_def)









subsection \<open>The loops\<close>

lemma printOpts_map:
  "printOpts i opts =
     map (\<lambda>j. Println (P_Option (setNumber (opts ! j) (int (i + j))))) [0..<length opts]"
proof (induction opts arbitrary: i)
  case Nil
  show ?case by simp
next
  case (Cons opt opts)
  show ?case
    by (simp add: Cons.IH [of "Suc i"] map_upt_Suc add.commute add.left_commute del: upt_Suc)
qed

lemma interface_lines_map:
  "interface_lines (map (\<lambda>i. Println (P_Interface i)) ifaces) = map String_CaptureInterface ifaces"
  by (induction ifaces) auto

lemma collectOpts_lookup:
  "collectOpts ctx names opts name =
     (if name \<in> set names
         \<and> name \<notin> {''extcap-interface'', ''fifo'', ''extcap-capture-filter''}
      then Some (Value ctx name) else opts name)"
  by (induction names arbitrary: opts) auto

lemma appendFlags_unsupported:
  "opt \<in> set opts \<Longrightarrow> variant opt = UnsupportedOpt T0 \<Longrightarrow>
   \<exists>T. (\<exists>x\<in>set opts. variant x = UnsupportedOpt T)
      \<and> appendFlags flags opts = Inl (PanicMsg (''Unknown config option type: '' @ T))"
proof (induction opts arbitrary: flags)
  case Nil
  then show ?case by simp
next
  case (Cons a opts)
  show ?case
  proof (cases "variant a")
    case (UnsupportedOpt T)
    then show ?thesis by auto
  next
    case (ConfigStringOpt d)
    with Cons.prems have "opt \<in> set opts" by auto
    from Cons.IH [OF this Cons.prems(2)] ConfigStringOpt show ?thesis by auto
  next
    case (ConfigBoolOpt d)
    with Cons.prems have "opt \<in> set opts" by auto
    from Cons.IH [OF this Cons.prems(2)] ConfigBoolOpt show ?thesis by auto
  next
    case (ConfigIntegerOpt d)
    with Cons.prems have "opt \<in> set opts" by auto
    from Cons.IH [OF this Cons.prems(2)] ConfigIntegerOpt show ?thesis by auto
  qed
qed

section \<open>The claims\<close>



text \<open>
  Claim C2 (as amended).  In list-DLTs mode, in capture mode, and in list-config mode when a
  per-interface option callback is registered, an invocation without
  \<^verbatim>\<open>--extcap-interface\<close> returns \<^verbatim>\<open>ErrNoInterfaceSpecified\<close> and no callback is
  invoked (the run has no observable event).

  As stated, for list-config mode without condition, the claim fails: the dispatcher tests
  the option callback for nil before it tests the interface flag, so with no per-interface
  option callback registered the same invocation succeeds with no output.
\<close>

theorem interface_required:
  assumes "\<not> IsSet ctx ''extcap-interface''"
    and "selected_mode (IsSet ctx) = ListDLTs
         \<or> (selected_mode (IsSet ctx) = ListConfig \<and> GetConfigOptions extapp \<noteq> None)
         \<or> selected_mode (IsSet ctx) = Capture"
  shows "mainAction env extapp ctx = ([], Return (Some ErrNoInterfaceSpecified))"
  using assms unfolding mainAction_def selected_mode_chain
  by (auto split: if_splits)

theorem interface_required_witness:
  "mainAction example_os example_app ctx_dlts_no_interface
     = ([], Return (Some ErrNoInterfaceSpecified))
   \<and> mainAction example_os example_app ctx_config_no_interface
     = ([], Return (Some ErrNoInterfaceSpecified))
   \<and> mainAction example_os example_app ctx_capture_no_interface
     = ([], Return (Some ErrNoInterfaceSpecified))"
proof -
  have a: "\<not> IsSet ctx_dlts_no_interface ''extcap-interface''"
    and b: "\<not> IsSet ctx_config_no_interface ''extcap-interface''"
    and c: "\<not> IsSet ctx_capture_no_interface ''extcap-interface''"
    by (simp_all add: example_defs)
  have a': "selected_mode (IsSet ctx_dlts_no_interface) = ListDLTs"
    and b': "selected_mode (IsSet ctx_config_no_interface) = ListConfig
             \<and> GetConfigOptions example_app \<noteq> None"
    and c': "selected_mode (IsSet ctx_capture_no_interface) = Capture"
    by (simp_all add: example_defs selected_mode_chain)
  show ?thesis
    using interface_required [OF a, of example_app example_os]
      interface_required [OF b, of example_app example_os]
      interface_required [OF c, of example_app example_os] a' b' c'
    by simp
qed

theorem interface_required_counterexample:
  "IsSet ctx_config_no_interface ''extcap-config''
   \<and> selected_mode (IsSet ctx_config_no_interface) = ListConfig
   \<and> GetConfigOptions app_without_options = None
   \<and> \<not> IsSet ctx_config_no_interface ''extcap-interface''
   \<and> mainAction example_os app_without_options ctx_config_no_interface = ([], Return None)
   \<and> snd (mainAction example_os app_without_options ctx_config_no_interface)
       \<noteq> Return (Some ErrNoInterfaceSpecified)"
  by (simp add: example_defs mainAction_def selected_mode_chain)

text \<open>
  Claim C3.  A capture invocation with \<^verbatim>\<open>--extcap-interface\<close> set and
  \<^verbatim>\<open>--fifo\<close> not set returns \<^verbatim>\<open>ErrNoPipeProvided\<close>, and the run has no observable
  event: neither the pipe opener nor the capture callback is invoked.
\<close>

theorem pipe_required:
  assumes "selected_mode (IsSet ctx) = Capture"
    and "IsSet ctx ''extcap-interface''"
    and "\<not> IsSet ctx ''fifo''"
  shows "mainAction env extapp ctx = ([], Return (Some ErrNoPipeProvided))"
  using assms unfolding mainAction_def selected_mode_chain
  by (auto split: if_splits)

theorem pipe_required_witness:
  "selected_mode (IsSet ctx_capture_no_fifo) = Capture
   \<and> IsSet ctx_capture_no_fifo ''extcap-interface''
   \<and> \<not> IsSet ctx_capture_no_fifo ''fifo''
   \<and> mainAction example_os example_app ctx_capture_no_fifo = ([], Return (Some ErrNoPipeProvided))"
proof -
  have a: "selected_mode (IsSet ctx_capture_no_fifo) = Capture"
    by (simp add: example_defs selected_mode_chain)
  have b: "IsSet ctx_capture_no_fifo ''extcap-interface''"
    and c: "\<not> IsSet ctx_capture_no_fifo ''fifo''"
    by (simp_all add: example_defs)
  show ?thesis
    using pipe_required [OF a b c, of example_os example_app] a b c by simp
qed

text \<open>
  Claim C4.  In capture mode the options mapping handed to the capture callback has as its
  keys exactly the flag names the context reports (\<^verbatim>\<open>ctx.FlagNames()\<close>) other than
  \<^verbatim>\<open>extcap-interface\<close>, \<^verbatim>\<open>fifo\<close> and \<^verbatim>\<open>extcap-capture-filter\<close>, each mapped to
  the flag's parsed value (\<^verbatim>\<open>ctx.Value(name)\<close>).  The concrete instance is the
  invocation \<^verbatim>\<open>--capture --extcap-interface=eth0 --fifo=/tmp/p
  --extcap-capture-filter=tcp --verbose=true\<close>: the callback receives interface
  \<^verbatim>\<open>eth0\<close>, filter \<^verbatim>\<open>tcp\<close> and a mapping with \<^verbatim>\<open>verbose\<close> true and none of the
  three excluded keys.
\<close>

theorem capture_options_mapping:
  assumes "selected_mode (IsSet ctx) = Capture"
    and "IsSet ctx ''extcap-interface''"
    and "IsSet ctx ''fifo''"
    and "(case OpenPipe extapp of None \<Rightarrow> openPipe env | Some f \<Rightarrow> f) (String ctx ''fifo'') = Inr pipe"
    and "StartCapture extapp = Some startCapture"
    and "opts = collectOpts ctx (FlagNames ctx) Map.empty"
  shows "mainAction env extapp ctx =
           ([Call_openPipeFunc (String ctx ''fifo''),
             Call_StartCapture (String ctx ''extcap-interface'') pipe
               (String ctx ''extcap-capture-filter'') opts],
            Return (startCapture (String ctx ''extcap-interface'') pipe
               (String ctx ''extcap-capture-filter'') opts))
         \<and> dom opts = set (FlagNames ctx) - {''extcap-interface'', ''fifo'', ''extcap-capture-filter''}
         \<and> (\<forall>name\<in>dom opts. opts name = Some (Value ctx name))"
proof -
  have run: "mainAction env extapp ctx =
           ([Call_openPipeFunc (String ctx ''fifo''),
             Call_StartCapture (String ctx ''extcap-interface'') pipe
               (String ctx ''extcap-capture-filter'') opts],
            Return (startCapture (String ctx ''extcap-interface'') pipe
               (String ctx ''extcap-capture-filter'') opts))"
    using assms unfolding mainAction_def selected_mode_chain
    by (auto simp: Let_def split: if_splits)
  have look: "opts name =
      (if name \<in> set (FlagNames ctx)
          \<and> name \<notin> {''extcap-interface'', ''fifo'', ''extcap-capture-filter''}
       then Some (Value ctx name) else None)" for name
    unfolding assms(6) collectOpts_lookup by simp
  have keys: "dom opts = set (FlagNames ctx) - {''extcap-interface'', ''fifo'', ''extcap-capture-filter''}"
    unfolding dom_def look by auto
  have vals: "\<forall>name\<in>dom opts. opts name = Some (Value ctx name)"
    unfolding keys look by auto
  from run keys vals show ?thesis by blast
qed

theorem capture_options_mapping_witness:
  "fst (mainAction example_os example_app ctx_capture) =
     [Call_openPipeFunc ''/tmp/p'',
      Call_StartCapture ''eth0'' (Pipe ''/tmp/p'') ''tcp''
        (collectOpts ctx_capture (FlagNames ctx_capture) Map.empty)]
   \<and> collectOpts ctx_capture (FlagNames ctx_capture) Map.empty ''verbose'' = Some (VBool True)
   \<and> collectOpts ctx_capture (FlagNames ctx_capture) Map.empty ''extcap-interface'' = None
   \<and> collectOpts ctx_capture (FlagNames ctx_capture) Map.empty ''fifo'' = None
   \<and> collectOpts ctx_capture (FlagNames ctx_capture) Map.empty ''extcap-capture-filter'' = None
   \<and> dom (collectOpts ctx_capture (FlagNames ctx_capture) Map.empty) = {''capture'', ''verbose''}"
proof -
  have a: "selected_mode (IsSet ctx_capture) = Capture"
    by (simp add: example_defs selected_mode_chain)
  have b: "IsSet ctx_capture ''extcap-interface''" and c: "IsSet ctx_capture ''fifo''"
    by (simp_all add: example_defs)
  have d: "(case OpenPipe example_app of None \<Rightarrow> openPipe example_os | Some f \<Rightarrow> f)
             (String ctx_capture ''fifo'') = Inr (Pipe ''/tmp/p'')"
    by (simp add: example_defs openPipe_def)
  have e: "StartCapture example_app = Some (\<lambda>iface pipe flt opts. None)"
    by (simp add: example_app_def)
  have s: "String ctx_capture ''fifo'' = ''/tmp/p''"
    "String ctx_capture ''extcap-interface'' = ''eth0''"
    "String ctx_capture ''extcap-capture-filter'' = ''tcp''"
    by (simp_all add: example_defs)
  have n: "set (FlagNames ctx_capture) - {''extcap-interface'', ''fifo'', ''extcap-capture-filter''}
             = {''capture'', ''verbose''}"
    by (auto simp: example_defs)
  have v: "Value ctx_capture ''verbose'' = VBool True"
    by (simp add: example_defs)
  note t = capture_options_mapping [OF a b c d e refl]
  have k: "dom (collectOpts ctx_capture (FlagNames ctx_capture) Map.empty) = {''capture'', ''verbose''}"
    using t n by simp
  have "collectOpts ctx_capture (FlagNames ctx_capture) Map.empty ''verbose''
          = Some (Value ctx_capture ''verbose'')"
    using t k by simp
  moreover have "collectOpts ctx_capture (FlagNames ctx_capture) Map.empty name = None"
    if "name \<notin> {''capture'', ''verbose''}" for name
    using k that by (metis domIff)
  ultimately show ?thesis
    using t k s v by simp
qed

text \<open>
  Claim C5.  In list-config mode, for the sequence of \<open>n\<close> options the per-interface
  option callback returns, the dispatcher prints exactly one line per option, in callback
  return order, and the option at position \<open>i\<close> is printed with ordinal \<open>i\<close>, from 0
  to \<open>n - 1\<close>.
\<close>

theorem config_ordinals:
  assumes "selected_mode (IsSet ctx) = ListConfig"
    and "IsSet ctx ''extcap-interface''"
    and "GetConfigOptions extapp = Some getConfigOptions"
    and "getConfigOptions (String ctx ''extcap-interface'') = Inr opts"
  shows "mainAction env extapp ctx =
           (Call_GetConfigOptions (String ctx ''extcap-interface'')
              # map (\<lambda>i. Println (P_Option (setNumber (opts ! i) (int i)))) [0..<length opts],
            Return None)"
  using assms unfolding mainAction_def selected_mode_chain
  by (auto simp: printOpts_map split: if_splits)

theorem config_ordinals_witness:
  "mainAction example_os example_app ctx_config =
     ([Call_GetConfigOptions ''eth0'',
       Println (P_Option (opt_host\<lparr>number := 0\<rparr>)),
       Println (P_Option (opt_verbose\<lparr>number := 1\<rparr>))],
      Return None)"
proof -
  have a: "selected_mode (IsSet ctx_config) = ListConfig"
    by (simp add: example_defs selected_mode_chain)
  have b: "IsSet ctx_config ''extcap-interface''"
    by (simp add: example_defs)
  have c: "GetConfigOptions example_app = Some (\<lambda>iface. Inr [opt_host, opt_verbose])"
    by (simp add: example_app_def)
  have d: "String ctx_config ''extcap-interface'' = ''eth0''"
    by (simp add: example_defs)
  have e: "(\<lambda>iface. Inr [opt_host, opt_verbose]) (String ctx_config ''extcap-interface'')
             = (Inr [opt_host, opt_verbose] :: error + ConfigOption list)"
    by simp
  have f: "[0..<length [opt_host, opt_verbose]] = [0, 1]"
    by (simp add: upt_rec)
  show ?thesis
    using config_ordinals [OF a b c e, of example_os] d f
    by (simp add: setNumber_def)
qed

text \<open>
  Claim C6.  In list-config mode, when the caller registered no per-interface option
  callback, the dispatcher returns success, prints nothing and invokes no callback.
\<close>

theorem no_option_callback_succeeds:
  assumes "selected_mode (IsSet ctx) = ListConfig"
    and "GetConfigOptions extapp = None"
  shows "mainAction env extapp ctx = ([], Return None)"
  using assms unfolding mainAction_def selected_mode_chain
  by (auto split: if_splits)

theorem no_option_callback_succeeds_witness:
  "selected_mode (IsSet ctx_config) = ListConfig
   \<and> GetConfigOptions app_without_options = None
   \<and> mainAction example_os app_without_options ctx_config = ([], Return None)"
proof -
  have a: "selected_mode (IsSet ctx_config) = ListConfig"
    by (simp add: example_defs selected_mode_chain)
  have b: "GetConfigOptions app_without_options = None"
    by (simp add: example_defs)
  show ?thesis
    using no_option_callback_succeeds [OF a b, of example_os] a b by simp
qed

text \<open>
  Claim C7 (as amended).  In capture mode, if opening the destination pipe fails, capture
  mode ends with the error the pipe opener returned and the capture callback is never
  invoked.  With the default pipe opener that error is the operating system's error wrapped
  with the context \<^verbatim>\<open>unable to open pipe: \<close>; the error of a caller-supplied pipe opener
  is returned as it is.

  As stated, for every pipe opener, the claim fails: the wrapping is done by the default
  opener \<^verbatim>\<open>openPipe\<close>, not by the dispatcher, so the error of a caller-supplied opener
  reaches the caller without that context.
\<close>

theorem pipe_open_failure:
  assumes "selected_mode (IsSet ctx) = Capture"
    and "IsSet ctx ''extcap-interface''"
    and "IsSet ctx ''fifo''"
  shows "(OpenPipe extapp = None \<and> os_OpenFile env (String ctx ''fifo'') = Inl err \<longrightarrow>
            mainAction env extapp ctx =
              ([Call_openPipeFunc (String ctx ''fifo'')],
               Return (Some (Errorf_w ''unable to open pipe: '' err))))
       \<and> (OpenPipe extapp = Some opener \<and> opener (String ctx ''fifo'') = Inl err \<longrightarrow>
            mainAction env extapp ctx =
              ([Call_openPipeFunc (String ctx ''fifo'')], Return (Some err)))"
  using assms unfolding mainAction_def selected_mode_chain
  by (auto simp: Let_def openPipe_def split: if_splits)

theorem pipe_open_failure_witness:
  "mainAction example_os example_app ctx_capture_bad_fifo =
     ([Call_openPipeFunc ''/no/such/fifo''],
      Return (Some (Errorf_w ''unable to open pipe: '' (OtherError ''no such file or directory''))))
   \<and> Error (Errorf_w ''unable to open pipe: '' (OtherError ''no such file or directory''))
       = ''unable to open pipe: no such file or directory''
   \<and> Unwrap (Errorf_w ''unable to open pipe: '' (OtherError ''no such file or directory''))
       = Some (OtherError ''no such file or directory'')
   \<and> mainAction example_os app_custom_opener ctx_capture_bad_fifo =
       ([Call_openPipeFunc ''/no/such/fifo''], Return (Some (OtherError ''permission denied'')))"
proof -
  have a: "selected_mode (IsSet ctx_capture_bad_fifo) = Capture"
    by (simp add: example_defs selected_mode_chain)
  have b: "IsSet ctx_capture_bad_fifo ''extcap-interface''"
    and c: "IsSet ctx_capture_bad_fifo ''fifo''"
    by (simp_all add: example_defs)
  have s: "String ctx_capture_bad_fifo ''fifo'' = ''/no/such/fifo''"
    by (simp add: example_defs)
  have d: "OpenPipe example_app = None"
    "os_OpenFile example_os ''/no/such/fifo'' = Inl (OtherError ''no such file or directory'')"
    by (simp_all add: example_defs)
  have e: "OpenPipe app_custom_opener = Some failing_opener"
    "failing_opener ''/no/such/fifo'' = Inl (OtherError ''permission denied'')"
    by (simp_all add: example_defs)
  show ?thesis
    using pipe_open_failure [OF a b c, of example_app example_os
            "OtherError ''no such file or directory''"]
      pipe_open_failure [OF a b c, of app_custom_opener example_os
            "OtherError ''permission denied''" failing_opener]
      s d e
    by simp
qed

theorem pipe_open_failure_counterexample:
  "selected_mode (IsSet ctx_capture_bad_fifo) = Capture
   \<and> IsSet ctx_capture_bad_fifo ''extcap-interface''
   \<and> IsSet ctx_capture_bad_fifo ''fifo''
   \<and> failing_opener (String ctx_capture_bad_fifo ''fifo'') = Inl (OtherError ''permission denied'')
   \<and> mainAction example_os app_custom_opener ctx_capture_bad_fifo =
       ([Call_openPipeFunc ''/no/such/fifo''], Return (Some (OtherError ''permission denied'')))
   \<and> Error (OtherError ''permission denied'') = ''permission denied''
   \<and> snd (mainAction example_os app_custom_opener ctx_capture_bad_fifo) \<noteq>
       Return (Some (Errorf_w ''unable to open pipe: '' (OtherError ''permission denied'')))"
  by (simp add: example_defs mainAction_def selected_mode_chain)

text \<open>
  Claim C8.  If the global-options callback returns an option that is not of the string,
  boolean or integer variant, \<^verbatim>\<open>Run\<close> panics while it builds the flag schema, with the
  message \<^verbatim>\<open>Unknown config option type: \<close> and the type of such an option.  The only
  observable event is the call of the global-options callback, and the outcome is the same
  for every command line and every behaviour of the flag library: no protocol mode executes.
\<close>

theorem unsupported_option_aborts:
  assumes "GetAllConfigOptions extapp = Some getAllConfigOptions"
    and "opt \<in> set (getAllConfigOptions ())"
    and "variant opt = UnsupportedOpt T0"
  shows "\<exists>T. (\<exists>x\<in>set (getAllConfigOptions ()). variant x = UnsupportedOpt T)
           \<and> (\<forall>lib env arguments.
                 Run lib env extapp arguments =
                   ([Call_GetAllConfigOptions],
                    Panic (PanicMsg (''Unknown config option type: '' @ T))))"
proof -
  from appendFlags_unsupported [OF assms(2,3), of staticFlags]
  obtain T where T: "\<exists>x\<in>set (getAllConfigOptions ()). variant x = UnsupportedOpt T"
    and stop: "appendFlags staticFlags (getAllConfigOptions ())
                 = Inl (PanicMsg (''Unknown config option type: '' @ T))"
    by blast
  have "Run lib env extapp arguments =
          ([Call_GetAllConfigOptions], Panic (PanicMsg (''Unknown config option type: '' @ T)))"
    for lib env arguments
    unfolding Run_def using assms(1) stop by (simp add: Let_def)
  with T show ?thesis by blast
qed

theorem unsupported_option_aborts_witness:
  "GetAllConfigOptions app_selector = Some selector_options
   \<and> opt_selector \<in> set (selector_options ())
   \<and> variant opt_selector = UnsupportedOpt ''*extcap.SelectorConfig''
   \<and> Run example_cli example_os app_selector [''extcap-interfaces''] =
       ([Call_GetAllConfigOptions],
        Panic (PanicMsg ''Unknown config option type: *extcap.SelectorConfig''))
   \<and> Run example_cli example_os app_selector [''capture''] =
       ([Call_GetAllConfigOptions],
        Panic (PanicMsg ''Unknown config option type: *extcap.SelectorConfig''))
   \<and> fst (Run example_cli example_os example_app [''extcap-interfaces'']) =
       [Call_GetAllConfigOptions, Call_GetInterfaces,
        Println (P_Version \<lparr>Info = ''1.0'', Help = ''https://github.com/lion7/extcap''\<rparr>),
        Println (P_Interface eth0)]"
proof -
  have a: "GetAllConfigOptions app_selector = Some selector_options"
    by (simp add: example_defs)
  have b: "opt_selector \<in> set (selector_options ())"
    by (simp add: selector_options_def)
  have c: "variant opt_selector = UnsupportedOpt ''*extcap.SelectorConfig''"
    by (simp add: opt_selector_def)
  have only: "T = ''*extcap.SelectorConfig''"
    if "\<exists>x\<in>set (selector_options ()). variant x = UnsupportedOpt T" for T
    using that by (auto simp: selector_options_def opt_selector_def opt_host_def opt_verbose_def)
  from unsupported_option_aborts [OF a b c] only
  have stop: "Run lib env app_selector arguments =
                ([Call_GetAllConfigOptions],
                 Panic (PanicMsg ''Unknown config option type: *extcap.SelectorConfig''))"
    for lib env arguments
    by fastforce
  have ok: "fst (Run example_cli example_os example_app [''extcap-interfaces'']) =
       [Call_GetAllConfigOptions, Call_GetInterfaces,
        Println (P_Version \<lparr>Info = ''1.0'', Help = ''https://github.com/lion7/extcap''\<rparr>),
        Println (P_Interface eth0)]"
    by (simp add: Run_def mainAction_def example_defs staticFlags_def Let_def)
  from a b c stop ok show ?thesis by simp
qed

text \<open>
  Claim C9.  In list-interfaces mode, when the enumeration callback succeeds the dispatcher
  prints the version line and then exactly one line per interface, in the callback's return
  order, each the rendering of that interface; when the callback fails, its error is
  returned as it is and nothing is printed.  For the single interface with value
  \<^verbatim>\<open>eth0\<close> and display name \<^verbatim>\<open>Ethernet\<close> the interface line is
  \<^verbatim>\<open>interface {value=eth0}{display=Ethernet}\<close>.
\<close>

theorem list_interfaces_output:
  assumes "selected_mode (IsSet ctx) = ListInterfaces"
    and "GetInterfaces extapp = Some getInterfaces"
  shows "(getInterfaces () = Inr ifaces \<longrightarrow>
            mainAction env extapp ctx =
              (Call_GetInterfaces # Println (P_Version (Version extapp))
                 # map (\<lambda>i. Println (P_Interface i)) ifaces,
               Return None)
            \<and> interface_lines (fst (mainAction env extapp ctx)) = map String_CaptureInterface ifaces)
       \<and> (getInterfaces () = Inl err \<longrightarrow>
            mainAction env extapp ctx = ([Call_GetInterfaces], Return (Some err)))"
  using assms unfolding mainAction_def selected_mode_chain
  by (auto simp: interface_lines_map split: if_splits)

theorem list_interfaces_output_witness:
  "mainAction example_os example_app ctx_interfaces =
     ([Call_GetInterfaces, Println (P_Version \<lparr>Info = ''1.0'', Help = []\<rparr>),
       Println (P_Interface eth0)], Return None)
   \<and> interface_lines (fst (mainAction example_os example_app ctx_interfaces))
       = [''interface {value=eth0}{display=Ethernet}'']
   \<and> mainAction example_os app_failing_enumeration ctx_interfaces =
       ([Call_GetInterfaces], Return (Some (OtherError ''enumeration failed'')))"
proof -
  have a: "selected_mode (IsSet ctx_interfaces) = ListInterfaces"
    by (simp add: example_defs selected_mode_chain)
  have b: "GetInterfaces example_app = Some (\<lambda>u. Inr [eth0])"
    by (simp add: example_app_def)
  have c: "GetInterfaces app_failing_enumeration = Some failing_enumeration"
    by (simp add: example_defs)
  have d: "Version example_app = \<lparr>Info = ''1.0'', Help = []\<rparr>"
    by (simp add: example_app_def)
  show ?thesis
    using list_interfaces_output [OF a b, of "[eth0]" example_os]
      list_interfaces_output [OF a c, of _ example_os "OtherError ''enumeration failed''"] d
    by (simp add: failing_enumeration_def String_CaptureInterface_def eth0_def)
qed




end
